theory Spec2Isabelle
  imports Complex_Main
begin

section \<open>Python values and their classes\<close>

text \<open>
  The guard of \<^verbatim>\<open>constrained.py\<close> looks at three things of a value only: its class
  (\<^verbatim>\<open>a.__class__\<close>), whether it is an instance of \<^verbatim>\<open>Iterable\<close>, and the elements
  that iterating it yields. The values below are the built-in ones the source's own
  examples use, plus instances \<open>PObj k\<close> of the \<open>k\<close>-th of a family of user-defined classes
  (named \<^verbatim>\<open>Obj\<close>, \<^verbatim>\<open>Obj_\<close>, \<^verbatim>\<open>Obj__\<close> and so on), which are not iterable, have no
  attributes of their own and no \<^verbatim>\<open>__constraints__\<close> in their bases.
  Of a float only the class is ever inspected. Iterables that can be walked only once
  (generators, iterators) are not among these values.
\<close>

datatype pytype = TInt | TBool | TFloat | TStr | TNone | TList | TTuple | TObj nat

datatype pyval =
    PInt int
  | PBool bool
  | PFloat real
  | PStr string
  | PNone
  | PList "pyval list"
  | PTuple "pyval list"
  | PObj nat

fun class_of :: "pyval \<Rightarrow> pytype" where
  "class_of (PInt i) = TInt"
| "class_of (PBool b) = TBool"
| "class_of (PFloat r) = TFloat"
| "class_of (PStr s) = TStr"
| "class_of PNone = TNone"
| "class_of (PList xs) = TList"
| "class_of (PTuple xs) = TTuple"
| "class_of (PObj n) = TObj n"

text \<open>\<^verbatim>\<open>isinstance(a, Iterable)\<close>: strings, lists and tuples define \<^verbatim>\<open>__iter__\<close>.\<close>

fun is_iterable :: "pyval \<Rightarrow> bool" where
  "is_iterable (PStr s) = True"
| "is_iterable (PList xs) = True"
| "is_iterable (PTuple xs) = True"
| "is_iterable v = False"

text \<open>What \<^verbatim>\<open>for e in a\<close> yields; a string yields its one-character strings.\<close>

fun elems :: "pyval \<Rightarrow> pyval list" where
  "elems (PStr s) = map (\<lambda>c. PStr [c]) s"
| "elems (PList xs) = xs"
| "elems (PTuple xs) = xs"
| "elems v = []"

text \<open>The truth value of a class object, as \<^verbatim>\<open>all(e.__class__ for e in a)\<close> tests it:
  every class object is true.\<close>

definition class_truthy :: "pytype \<Rightarrow> bool" where
  "class_truthy t = True"

text \<open>\<^verbatim>\<open>__index__\<close>: the values a list accepts as an index or a repetition count.\<close>

fun index_of :: "pyval \<Rightarrow> int option" where
  "index_of (PInt i) = Some i"
| "index_of (PBool b) = Some (if b then 1 else 0)"
| "index_of v = None"

fun type_name :: "pytype \<Rightarrow> string" where
  "type_name TInt = ''int''"
| "type_name TBool = ''bool''"
| "type_name TFloat = ''float''"
| "type_name TStr = ''str''"
| "type_name TNone = ''NoneType''"
| "type_name TList = ''list''"
| "type_name TTuple = ''tuple''"
| "type_name (TObj k) = ''Obj'' @ replicate k (CHR ''_'')"

text \<open>A class name between apostrophes, as the interpreter's messages print it.\<close>

definition quoted :: "pytype \<Rightarrow> string" where
  "quoted t = [CHR 0x27] @ type_name t @ [CHR 0x27]"

text \<open>
  \<^verbatim>\<open>Constrained.__subclasshook__\<close>, lines 85 to 93, on the class of a value: the class is
  named \<^verbatim>\<open>str\<close>, \<^verbatim>\<open>array\<close> or \<^verbatim>\<open>IsConstrained\<close> (no class of these values carries
  \<^verbatim>\<open>__constraints__\<close>). \<^verbatim>\<open>Vec\<close>, \<^verbatim>\<open>Array\<close> and \<^verbatim>\<open>StrArray\<close> are subclasses of \<^verbatim>\<open>UserList\<close>
  that inherit this hook, and the subclass check of an abstract base class asks its
  subclasses: so \<^verbatim>\<open>isinstance(v, UserList)\<close> holds of the values whose class passes the
  hook, which among the values here are the strings (\<open>isinstance_UserList_iff\<close>). For the
  same reason \<^verbatim>\<open>isinstance(v, Iterable)\<close> would hold of a value of such a class; of the
  values here these are again the strings, which \<open>is_iterable\<close> already accepts.
\<close>

definition subclasshook :: "pytype \<Rightarrow> bool" where
  "subclasshook C = (type_name C \<in> set [''str'', ''array'', ''IsConstrained''])"

definition isinstance_UserList :: "pyval \<Rightarrow> bool" where
  "isinstance_UserList v = subclasshook (class_of v)"

section \<open>Constraints, containers, errors\<close>

text \<open>An entry of a \<^verbatim>\<open>__constraints__\<close> tuple: a class object, or the \<^verbatim>\<open>TypeVar\<close> that
  \<^verbatim>\<open>get_args(Constrained[T])\<close> leaves there.\<close>

datatype centry = Cls pytype | TVar string

text \<open>An instance: \<^verbatim>\<open>self.data\<close> and the \<^verbatim>\<open>__constraints__\<close> that \<^verbatim>\<open>self\<close> resolves to.\<close>

record container =
  data :: "pyval list"
  constraints :: "centry list"

datatype error =
    TypeError string
  | IndexError string
  | AttributeError string
  | OverflowError string
  | MemoryError

text \<open>The interpreter's messages for a value that is not iterable, and for one that is
  read for a \<^verbatim>\<open>data\<close> attribute it does not have.\<close>

definition not_iterable :: "pyval \<Rightarrow> error" where
  "not_iterable v = TypeError (quoted (class_of v) @ '' object is not iterable'')"

definition no_data_attribute :: "pyval \<Rightarrow> error" where
  "no_data_attribute v =
     AttributeError (quoted (class_of v) @ '' object has no attribute ''
                       @ [CHR 0x27] @ ''data'' @ [CHR 0x27])"

text \<open>What a method returns besides the state it leaves: \<^verbatim>\<open>None\<close> or \<^verbatim>\<open>self\<close>.\<close>

datatype ret = RNone | RSelf

type_synonym result = "error + (ret \<times> container)"

text \<open>\<^verbatim>\<open>a.__class__ in self.__constraints__\<close>\<close>

definition allowed :: "container \<Rightarrow> pyval \<Rightarrow> bool" where
  "allowed self a = (Cls (class_of a) \<in> set (constraints self))"

section \<open>The underlying list operations\<close>

text \<open>The built-in list takes an index or a count as a C \<^verbatim>\<open>ssize_t\<close>, of 64 bits here.\<close>

definition PY_SSIZE_T_MAX :: int where
  "PY_SSIZE_T_MAX = 2 ^ 63 - 1"

definition ssize_ok :: "int \<Rightarrow> bool" where
  "ssize_ok k = (- (2 ^ 63) \<le> k \<and> k < 2 ^ 63)"

text \<open>\<^verbatim>\<open>list.insert(i, x)\<close>: a negative index counts from the end, and the position is
  clamped to the list.\<close>

definition list_insert :: "int \<Rightarrow> 'a \<Rightarrow> 'a list \<Rightarrow> 'a list" where
  "list_insert i x xs =
     (let n = int (length xs);
          j = (if i < 0 then max 0 (i + n) else min i n)
      in take (nat j) xs @ x # drop (nat j) xs)"

text \<open>\<^verbatim>\<open>n\<close> copies of a list, one after the other.\<close>

definition list_repeat :: "int \<Rightarrow> 'a list \<Rightarrow> 'a list" where
  "list_repeat n xs = concat (replicate (nat n) xs)"

text \<open>
  \<^verbatim>\<open>xs *= n\<close> on a built-in list, the count already an integer: a count outside
  \<^verbatim>\<open>ssize_t\<close> raises; an empty list or a count of one is left alone; a count below one
  empties the list; a result longer than \<^verbatim>\<open>PY_SSIZE_T_MAX\<close> raises \<^verbatim>\<open>MemoryError\<close>. (Whether
  the machine has the memory for a shorter result is not modelled.)
\<close>

definition list_imul :: "int \<Rightarrow> 'a list \<Rightarrow> error + 'a list" where
  "list_imul k xs =
     (if \<not> ssize_ok k
      then Inl (OverflowError (''cannot fit '' @ [CHR 0x27] @ ''int'' @ [CHR 0x27]
                                @ '' into an index-sized integer''))
      else if xs = [] \<or> k = 1 then Inr xs
      else if k < 1 then Inr []
      else if PY_SSIZE_T_MAX div k < int (length xs) then Inl MemoryError
      else Inr (list_repeat k xs))"

text \<open>\<^verbatim>\<open>UserList.append\<close>\<close>

definition UserList_append :: "pyval \<Rightarrow> container \<Rightarrow> result" where
  "UserList_append item self = Inr (RNone, self\<lparr>data := data self @ [item]\<rparr>)"

text \<open>\<^verbatim>\<open>UserList.insert\<close>: \<^verbatim>\<open>self.data.insert(i, item)\<close>. The index must be an integer,
  and one that fits \<^verbatim>\<open>ssize_t\<close>.\<close>

definition UserList_insert :: "pyval \<Rightarrow> pyval \<Rightarrow> container \<Rightarrow> result" where
  "UserList_insert i item self =
     (case index_of i of
        None \<Rightarrow> Inl (TypeError (quoted (class_of i)
                       @ '' object cannot be interpreted as an integer''))
      | Some k \<Rightarrow>
          (if ssize_ok k then Inr (RNone, self\<lparr>data := list_insert k item (data self)\<rparr>)
           else Inl (OverflowError ''Python int too large to convert to C ssize_t'')))"

text \<open>\<^verbatim>\<open>self.data.extend(other)\<close>, the body of \<^verbatim>\<open>Vec.extend\<close>, and \<^verbatim>\<open>self.data += other\<close>
  followed by \<^verbatim>\<open>return self\<close>, the body of \<^verbatim>\<open>Vec.__iadd__\<close>; \<open>r\<close> is what is returned.\<close>

definition data_extend :: "ret \<Rightarrow> pyval \<Rightarrow> container \<Rightarrow> result" where
  "data_extend r other self =
     (if is_iterable other then Inr (r, self\<lparr>data := data self @ elems other\<rparr>)
      else Inl (not_iterable other))"

text \<open>\<^verbatim>\<open>UserList.extend\<close> and \<^verbatim>\<open>UserList.__iadd__\<close>, which \<^verbatim>\<open>Array\<close> and \<^verbatim>\<open>StrArray\<close> wrap: both
  first test \<^verbatim>\<open>isinstance(other, UserList)\<close> and then read \<^verbatim>\<open>other.data\<close>.\<close>

definition UserList_extend :: "pyval \<Rightarrow> container \<Rightarrow> result" where
  "UserList_extend other self =
     (if isinstance_UserList other then Inl (no_data_attribute other)
      else data_extend RNone other self)"

definition UserList_iadd :: "pyval \<Rightarrow> container \<Rightarrow> result" where
  "UserList_iadd other self =
     (if isinstance_UserList other then Inl (no_data_attribute other)
      else data_extend RSelf other self)"

text \<open>\<^verbatim>\<open>self.data *= n; return self\<close>, the body of \<^verbatim>\<open>Vec.__imul__\<close> and of
  \<^verbatim>\<open>UserList.__imul__\<close>\<close>

definition data_imul :: "pyval \<Rightarrow> container \<Rightarrow> result" where
  "data_imul n self =
     (case index_of n of
        None \<Rightarrow> Inl (TypeError (''can'' @ [CHR 0x27] @ ''t multiply sequence by non-int of type ''
                       @ quoted (class_of n)))
      | Some k \<Rightarrow>
          (case list_imul k (data self) of
             Inl e \<Rightarrow> Inl e
           | Inr xs \<Rightarrow> Inr (RSelf, self\<lparr>data := xs\<rparr>)))"

text \<open>\<^verbatim>\<open>UserList.__setitem__\<close> with an integer key: \<^verbatim>\<open>self.data[i] = item\<close>\<close>

definition UserList_setitem :: "int \<Rightarrow> pyval \<Rightarrow> container \<Rightarrow> result" where
  "UserList_setitem i item self =
     (let n = int (length (data self)) in
      if \<not> ssize_ok i
      then Inl (IndexError (''cannot fit '' @ [CHR 0x27] @ ''int'' @ [CHR 0x27]
                             @ '' into an index-sized integer''))
      else if - n \<le> i \<and> i < n
      then Inr (RNone, self\<lparr>data := (data self)[nat (if i < 0 then i + n else i) := item]\<rparr>)
      else Inl (IndexError ''list assignment index out of range''))"

section \<open>The mutation guard\<close>

text \<open>
  \<^verbatim>\<open>_constrain(m)\<close>, lines 15 to 29. \<open>m\<close> is the wrapped call \<^verbatim>\<open>m(self, *args, **kwargs)\<close>
  with its arguments already supplied; the list is \<^verbatim>\<open>args\<close> as the loop walks it.
  Keyword arguments are passed on unread. Falling off the end of the loop returns
  \<^verbatim>\<open>None\<close> with \<^verbatim>\<open>self\<close> untouched.
\<close>

fun constrain :: "(container \<Rightarrow> result) \<Rightarrow> container \<Rightarrow> pyval list \<Rightarrow> result" where
  "constrain m self [] = Inr (RNone, self)"
| "constrain m self (a # rest) =
     (if \<not> allowed self a then
        (if is_iterable a then
           (if \<not> list_all (\<lambda>e. class_truthy (class_of e)) (elems a)
            then Inl (TypeError ''Invalid element types'')
            else constrain m self rest)
         else Inl (TypeError ''Invalid type for argument''))
      else m self)"

text \<open>The guarded methods \<^verbatim>\<open>append\<close>, \<^verbatim>\<open>insert\<close>, \<^verbatim>\<open>extend\<close>, \<^verbatim>\<open>__imul__\<close> and \<^verbatim>\<open>__iadd__\<close>
  of \<^verbatim>\<open>Vec\<close>, lines 120 to 136. \<^verbatim>\<open>append\<close>, \<^verbatim>\<open>insert\<close> and \<^verbatim>\<open>__imul__\<close> of \<^verbatim>\<open>Array\<close> and
  \<^verbatim>\<open>StrArray\<close> wrap the same bodies; their \<^verbatim>\<open>extend\<close> and \<^verbatim>\<open>__iadd__\<close> follow.\<close>

definition Vec_append :: "container \<Rightarrow> pyval \<Rightarrow> result" where
  "Vec_append self item = constrain (UserList_append item) self [item]"

definition Vec_insert :: "container \<Rightarrow> pyval \<Rightarrow> pyval \<Rightarrow> result" where
  "Vec_insert self i item = constrain (UserList_insert i item) self [i, item]"

definition Vec_extend :: "container \<Rightarrow> pyval \<Rightarrow> result" where
  "Vec_extend self other = constrain (data_extend RNone other) self [other]"

definition Vec_imul :: "container \<Rightarrow> pyval \<Rightarrow> result" where
  "Vec_imul self n = constrain (data_imul n) self [n]"

definition Vec_iadd :: "container \<Rightarrow> pyval \<Rightarrow> result" where
  "Vec_iadd self other = constrain (data_extend RSelf other) self [other]"

text \<open>\<^verbatim>\<open>extend = _constrain(UserList.extend)\<close> and \<^verbatim>\<open>__iadd__ = _constrain(UserList.__iadd__)\<close>
  of \<^verbatim>\<open>Array\<close> and \<^verbatim>\<open>StrArray\<close>, lines 157, 160, 173 and 176.\<close>

definition Array_extend :: "container \<Rightarrow> pyval \<Rightarrow> result" where
  "Array_extend self other = constrain (UserList_extend other) self [other]"

definition Array_iadd :: "container \<Rightarrow> pyval \<Rightarrow> result" where
  "Array_iadd self other = constrain (UserList_iadd other) self [other]"

text \<open>\<^verbatim>\<open>__constrained_setitem__\<close>, lines 58 to 62, for an integer key.\<close>

definition constrained_setitem :: "container \<Rightarrow> int \<Rightarrow> pyval \<Rightarrow> result" where
  "constrained_setitem self key val =
     (if allowed self val then UserList_setitem key val self
      else Inl (TypeError ''Invalid value type for Constrained class''))"

section \<open>Derivation and construction\<close>

text \<open>
  \<^verbatim>\<open>__init_subclass__\<close>, lines 55 to 57: \<open>type_args\<close> is \<^verbatim>\<open>get_args(cls.__orig_bases__[0])\<close>,
  \<open>kw\<close> the \<^verbatim>\<open>constraints\<close> keyword of the class statement. \<^verbatim>\<open>not constraints\<close> holds
  of \<^verbatim>\<open>None\<close> and of the empty tuple.
\<close>

fun init_subclass :: "centry list \<Rightarrow> centry list option \<Rightarrow> centry list" where
  "init_subclass type_args None = type_args"
| "init_subclass type_args (Some []) = type_args"
| "init_subclass type_args (Some (c # cs)) = c # cs"

text \<open>The test of lines 69 to 72 on the class-level attribute.\<close>

fun unresolved :: "centry list option \<Rightarrow> bool" where
  "unresolved None = True"
| "unresolved (Some []) = True"
| "unresolved (Some (TVar v # cs)) = True"
| "unresolved (Some (Cls t # cs)) = False"

text \<open>\<^verbatim>\<open>tuple(set([e.__class__ for e in arg]))\<close>. Python fixes no order for the tuple;
  \<open>remdups\<close> picks one here, and nothing below depends on the order.\<close>

definition inferred :: "pyval list \<Rightarrow> centry list" where
  "inferred arg = map Cls (remdups (map class_of arg))"

text \<open>Lines 67 to 75: the tuple \<^verbatim>\<open>self.__constraints__\<close> names once they have run.
  \<open>cls\<close> is the class-level attribute, \<open>explicit\<close> the \<^verbatim>\<open>constraints\<close> keyword of the
  constructor, \<open>xs\<close> the elements that walking the initial batch yields.\<close>

definition resolve :: "centry list option \<Rightarrow> centry list option \<Rightarrow> pyval list \<Rightarrow> centry list" where
  "resolve cls explicit xs =
     (case explicit of
        Some cs \<Rightarrow> cs
      | None \<Rightarrow> (if unresolved cls then inferred xs
                 else (case cls of Some cs \<Rightarrow> cs | None \<Rightarrow> [])))"

text \<open>
  \<^verbatim>\<open>self.__own_init__(arg)\<close>, which is \<^verbatim>\<open>UserList.__init__\<close>: \<^verbatim>\<open>None\<close> leaves \<^verbatim>\<open>self.data\<close>
  empty; a list is copied; a value that passes \<^verbatim>\<open>isinstance(initlist, UserList)\<close> is read
  for its \<^verbatim>\<open>data\<close>, which a string does not have; anything else goes through
  \<^verbatim>\<open>list(initlist)\<close>.
\<close>

fun own_init :: "centry list \<Rightarrow> pyval \<Rightarrow> error + container" where
  "own_init cs PNone = Inr \<lparr>data = [], constraints = cs\<rparr>"
| "own_init cs (PList xs) = Inr \<lparr>data = xs, constraints = cs\<rparr>"
| "own_init cs arg =
     (if isinstance_UserList arg then Inl (no_data_attribute arg)
      else if is_iterable arg then Inr \<lparr>data = elems arg, constraints = cs\<rparr>
      else Inl (not_iterable arg))"

text \<open>
  \<^verbatim>\<open>__constrained_init__\<close>, lines 64 to 79, on the initial batch \<open>arg\<close>. The first walk of
  \<open>arg\<close> (line 74 or line 76) raises if it is not iterable. A raise leaves the caller
  with no object.
\<close>

definition constrained_init ::
    "centry list option \<Rightarrow> pyval \<Rightarrow> centry list option \<Rightarrow> error + container" where
  "constrained_init cls arg explicit =
     (if \<not> is_iterable arg then Inl (not_iterable arg)
      else
        (let cs = resolve cls explicit (elems arg) in
         if \<not> list_all (\<lambda>v. Cls (class_of v) \<in> set cs) (elems arg)
         then Inl (TypeError ''Invalid value type for Constrained class'')
         else own_init cs arg))"

text \<open>The three classes the source derives.\<close>

definition Vec_cls :: "centry list option" where
  "Vec_cls = Some (init_subclass [TVar ''T''] None)"

definition Array_cls :: "centry list option" where
  "Array_cls = Some (init_subclass [] (Some [Cls TInt]))"

definition StrArray_cls :: "centry list option" where
  "StrArray_cls = Some (init_subclass [Cls TStr] None)"

text \<open>The invariant of the data model: every stored element has an allowed class.\<close>

definition well_typed :: "container \<Rightarrow> bool" where
  "well_typed self = list_all (allowed self) (data self)"

section \<open>What the guard does\<close>

lemma elems_truthy: "list_all (\<lambda>e. class_truthy (class_of e)) xs"
  by (simp add: class_truthy_def list_all_iff)

lemma constrain_allowed: "allowed self a \<Longrightarrow> constrain m self (a # rest) = m self"
  by simp

lemma constrain_skip:
  "\<not> allowed self a \<Longrightarrow> is_iterable a \<Longrightarrow> constrain m self (a # rest) = constrain m self rest"
  by (simp add: elems_truthy)

lemma constrain_reject:
  "\<not> allowed self a \<Longrightarrow> \<not> is_iterable a \<Longrightarrow>
   constrain m self (a # rest) = Inl (TypeError ''Invalid type for argument'')"
  by simp

lemma constrain_outcomes:
  "constrain m self args = Inr (RNone, self)
   \<or> constrain m self args = Inl (TypeError ''Invalid type for argument'')
   \<or> constrain m self args = m self"
  by (induction args) (simp_all add: elems_truthy)

lemma iterable_no_index: "is_iterable a \<Longrightarrow> index_of a = None"
  by (cases a) auto

lemma str_is_UserList: "isinstance_UserList (PStr s)"
  by (simp add: isinstance_UserList_def subclasshook_def)

lemma isinstance_UserList_iff: "isinstance_UserList v \<longleftrightarrow> (\<exists>s. v = PStr s)"
  by (cases v) (simp_all add: isinstance_UserList_def subclasshook_def)

lemma list_tuple_not_UserList:
  "\<not> isinstance_UserList (PList xs)" "\<not> isinstance_UserList (PTuple xs)"
  by (simp_all add: isinstance_UserList_def subclasshook_def)

lemma set_list_imul: "list_imul k xs = Inr ys \<Longrightarrow> set ys \<subseteq> set xs"
  by (auto simp: list_imul_def list_repeat_def split: if_splits)

section \<open>Construction\<close>

lemma init_success:
  "constrained_init cls arg explicit = Inr c \<Longrightarrow>
   is_iterable arg \<and> data c = elems arg \<and> constraints c = resolve cls explicit (elems arg)
   \<and> list_all (\<lambda>v. Cls (class_of v) \<in> set (constraints c)) (elems arg)"
  by (cases arg) (auto simp: constrained_init_def Let_def split: if_splits)

lemma init_list_tuple:
  assumes "arg = PList xs \<or> arg = PTuple xs"
  shows "constrained_init cls arg explicit =
     (if list_all (\<lambda>v. Cls (class_of v) \<in> set (resolve cls explicit xs)) xs
      then Inr \<lparr>data = xs, constraints = resolve cls explicit xs\<rparr>
      else Inl (TypeError ''Invalid value type for Constrained class''))"
  using assms by (auto simp: constrained_init_def Let_def list_tuple_not_UserList)

lemma inferred_set: "set (inferred xs) = Cls ` class_of ` set xs \<and> distinct (inferred xs)"
  by (simp add: inferred_def distinct_map inj_on_def)

lemma inferred_covers: "list_all (\<lambda>v. Cls (class_of v) \<in> set (inferred xs)) xs"
  by (simp add: inferred_def list_all_iff)

section \<open>The paths that keep the element invariant\<close>

lemma init_well_typed:
  "constrained_init cls arg explicit = Inr c \<Longrightarrow> well_typed c"
  using init_success [of cls arg explicit c] by (auto simp: well_typed_def allowed_def list_all_iff)

lemma append_preserves:
  "well_typed self \<Longrightarrow> Vec_append self item = Inr (r, self') \<Longrightarrow> well_typed self'"
  by (auto simp: Vec_append_def well_typed_def allowed_def UserList_append_def elems_truthy
      list_all_iff split: if_splits)

lemma setitem_preserves:
  "well_typed self \<Longrightarrow> constrained_setitem self k v = Inr (r, self') \<Longrightarrow> well_typed self'"
  by (auto simp: constrained_setitem_def well_typed_def allowed_def UserList_setitem_def Let_def
      list_all_iff split: if_splits dest!: set_update_subset_insert[THEN subsetD])

lemma imul_preserves:
  "well_typed self \<Longrightarrow> Vec_imul self n = Inr (r, self') \<Longrightarrow> well_typed self'"
  by (auto simp: Vec_imul_def well_typed_def allowed_def data_imul_def
      list_all_iff elems_truthy split: if_splits option.splits sum.splits
      dest!: set_list_imul[THEN subsetD])

text \<open>Without \<^verbatim>\<open>int\<close> or \<^verbatim>\<open>bool\<close> among the constraints no argument makes \<^verbatim>\<open>*=\<close> repeat:
  whatever returns, returns \<^verbatim>\<open>None\<close> and leaves the container as it was.\<close>

lemma imul_never_repeats_without_index_class:
  assumes "Cls TInt \<notin> set (constraints self)" and "Cls TBool \<notin> set (constraints self)"
    and "Vec_imul self n = Inr (r, self')"
  shows "r = RNone \<and> self' = self"
proof (cases "allowed self n")
  case True
  with assms(1,2) have "index_of n = None" by (cases n) (auto simp: allowed_def)
  with True assms(3) show ?thesis by (simp add: Vec_imul_def data_imul_def)
next
  case False
  with assms(3) show ?thesis by (auto simp: Vec_imul_def elems_truthy split: if_splits)
qed

section \<open>The claims\<close>

text \<open>
  C1. Every stored element has a class of the container's constraints, and
  \<^verbatim>\<open>append\<close>, \<^verbatim>\<open>insert\<close>, \<^verbatim>\<open>extend\<close>, \<^verbatim>\<open>+=\<close> and indexed assignment keep it so. The guard
  returns \<^verbatim>\<open>m(self, *args)\<close> at the first argument whose class is allowed, and for
  \<^verbatim>\<open>insert\<close> that argument is the index: \<^verbatim>\<open>Array([1]).insert(0, 'a')\<close> stores a string
  in a container constrained to \<^verbatim>\<open>int\<close>.
\<close>

theorem insert_breaks_element_invariant:
  "constrained_init Array_cls (PList [PInt 1]) None
       = Inr \<lparr>data = [PInt 1], constraints = [Cls TInt]\<rparr>
   \<and> well_typed \<lparr>data = [PInt 1], constraints = [Cls TInt]\<rparr>
   \<and> Vec_insert \<lparr>data = [PInt 1], constraints = [Cls TInt]\<rparr> (PInt 0) (PStr ''a'')
       = Inr (RNone, \<lparr>data = [PStr ''a'', PInt 1], constraints = [Cls TInt]\<rparr>)
   \<and> \<not> well_typed \<lparr>data = [PStr ''a'', PInt 1], constraints = [Cls TInt]\<rparr>"
  by (simp add: constrained_init_def resolve_def Array_cls_def well_typed_def
      allowed_def Vec_insert_def UserList_insert_def list_insert_def ssize_ok_def)

text \<open>
  C2. A mutating operation that does not fully succeed raises a type-constraint violation
  and leaves the elements and the constraints as they were. \<^verbatim>\<open>Array([1, 2, 3]).extend([4, 'x'])\<close>
  does leave the container as it was, but raises nothing: the test
  \<^verbatim>\<open>all(e.__class__ for e in a)\<close> never fails, the loop ends, and the call returns \<^verbatim>\<open>None\<close>.
  The guard is the same around \<^verbatim>\<open>Vec.extend\<close> and around \<^verbatim>\<open>UserList.extend\<close>.
\<close>

theorem extend_mixed_batch_returns_silently:
  "constrained_init Array_cls (PList [PInt 1, PInt 2, PInt 3]) None
     = Inr \<lparr>data = [PInt 1, PInt 2, PInt 3], constraints = [Cls TInt]\<rparr>
   \<and> Vec_extend \<lparr>data = [PInt 1, PInt 2, PInt 3], constraints = [Cls TInt]\<rparr>
        (PList [PInt 4, PStr ''x''])
     = Inr (RNone, \<lparr>data = [PInt 1, PInt 2, PInt 3], constraints = [Cls TInt]\<rparr>)
   \<and> Array_extend \<lparr>data = [PInt 1, PInt 2, PInt 3], constraints = [Cls TInt]\<rparr>
        (PList [PInt 4, PStr ''x''])
     = Inr (RNone, \<lparr>data = [PInt 1, PInt 2, PInt 3], constraints = [Cls TInt]\<rparr>)"
  by (simp add: constrained_init_def resolve_def Array_cls_def
      allowed_def Vec_extend_def Array_extend_def class_truthy_def)

text \<open>
  C3. When the constructor is given an explicit \<^verbatim>\<open>constraints\<close> tuple, the constraints the
  instance resolves to are that tuple, whatever the class-level attribute and whatever
  the classes of the initial batch; a container that is produced carries that tuple.
\<close>

theorem explicit_constraints_take_precedence:
  "resolve cls (Some cs) xs = cs
   \<and> (constrained_init cls arg (Some cs) = Inr c \<longrightarrow> constraints c = cs \<and> data c = elems arg)"
  using init_success [of cls arg "Some cs" c] by (simp add: resolve_def)

theorem explicit_constraints_take_precedence_witness:
  "resolve Array_cls (Some [Cls TStr]) [PStr ''a'', PStr ''b''] = [Cls TStr]
   \<and> constrained_init Array_cls (PList [PStr ''a'', PStr ''b'']) (Some [Cls TStr])
       = Inr \<lparr>data = [PStr ''a'', PStr ''b''], constraints = [Cls TStr]\<rparr>
   \<and> constraints \<lparr>data = [PStr ''a'', PStr ''b''], constraints = [Cls TStr]\<rparr> = [Cls TStr]"
  using explicit_constraints_take_precedence [of Array_cls "[Cls TStr]" "[PStr ''a'', PStr ''b'']"
      "PList [PStr ''a'', PStr ''b'']"
      "\<lparr>data = [PStr ''a'', PStr ''b''], constraints = [Cls TStr]\<rparr>"]
  by (simp add: constrained_init_def)

text \<open>
  C4. With no explicit \<^verbatim>\<open>constraints\<close> and a class-level attribute that is \<^verbatim>\<open>None\<close>, the
  empty tuple, or a tuple led by a type variable (\<open>unresolved\<close>), the constraints the
  instance resolves to are exactly the classes occurring in the initial batch, each
  once. A container that is produced carries them; one is produced from every list and
  every tuple; a string batch resolves in the same way, and then \<^verbatim>\<open>UserList.__init__\<close>
  raises \<^verbatim>\<open>AttributeError\<close>.
\<close>

theorem constraints_inferred_from_batch:
  assumes "unresolved cls"
  shows "set (resolve cls None xs) = Cls ` class_of ` set xs \<and> distinct (resolve cls None xs)
       \<and> (constrained_init cls arg None = Inr c \<longrightarrow>
            data c = elems arg \<and> constraints c = resolve cls None (elems arg))
       \<and> (arg = PList ys \<or> arg = PTuple ys \<longrightarrow>
            constrained_init cls arg None = Inr \<lparr>data = ys, constraints = resolve cls None ys\<rparr>)
       \<and> constrained_init cls (PStr s) None = Inl (no_data_attribute (PStr s))"
proof -
  have r: "\<And>zs. resolve cls None zs = inferred zs" using assms by (simp add: resolve_def)
  have a: "set (resolve cls None xs) = Cls ` class_of ` set xs \<and> distinct (resolve cls None xs)"
    by (simp add: r inferred_set)
  have b: "constrained_init cls arg None = Inr c \<longrightarrow>
            data c = elems arg \<and> constraints c = resolve cls None (elems arg)"
    using init_success [of cls arg None c] by simp
  have c: "arg = PList ys \<or> arg = PTuple ys \<longrightarrow>
            constrained_init cls arg None = Inr \<lparr>data = ys, constraints = resolve cls None ys\<rparr>"
    using init_list_tuple [of arg ys cls None] inferred_covers [of ys] by (auto simp: r)
  have d: "constrained_init cls (PStr s) None = Inl (no_data_attribute (PStr s))"
    using inferred_covers [of "elems (PStr s)"]
    by (simp add: constrained_init_def r str_is_UserList del: elems.simps)
  from a b c d show ?thesis by blast
qed

theorem constraints_inferred_from_batch_witness:
  "unresolved Vec_cls
   \<and> constrained_init Vec_cls (PList [PStr ''d'', PInt 1, PStr ''e'']) None
       = Inr \<lparr>data = [PStr ''d'', PInt 1, PStr ''e''], constraints = [Cls TInt, Cls TStr]\<rparr>
   \<and> set [Cls TInt, Cls TStr] = Cls ` class_of ` set [PStr ''d'', PInt 1, PStr ''e'']"
proof -
  have u: "unresolved Vec_cls" by (simp add: Vec_cls_def)
  have r: "resolve Vec_cls None [PStr ''d'', PInt 1, PStr ''e''] = [Cls TInt, Cls TStr]"
    by (simp add: resolve_def Vec_cls_def inferred_def)
  from constraints_inferred_from_batch [OF u, of "[PStr ''d'', PInt 1, PStr ''e'']"
      "PList [PStr ''d'', PInt 1, PStr ''e'']" _ "[PStr ''d'', PInt 1, PStr ''e'']"] u r
  show ?thesis by auto
qed



text \<open>
  C6. The scenario of lines 191 to 196: \<^verbatim>\<open>Vec([1, 'a'], constraints=(str, int))\<close>, then
  \<^verbatim>\<open>extend(['d', 'b'])\<close>, then appending a float. The claim has the extension produce
  \<^verbatim>\<open>[1, 'a', 'd', 'b']\<close>; the guard finds \<^verbatim>\<open>list\<close> outside the constraints, raises nothing
  and never calls the wrapped method, so the elements stay \<^verbatim>\<open>[1, 'a']\<close>. Appending the
  float does raise.
\<close>

theorem multiple_constraints_scenario:
  "constrained_init Vec_cls (PList [PInt 1, PStr ''a'']) (Some [Cls TStr, Cls TInt])
     = Inr \<lparr>data = [PInt 1, PStr ''a''], constraints = [Cls TStr, Cls TInt]\<rparr>
   \<and> Vec_extend \<lparr>data = [PInt 1, PStr ''a''], constraints = [Cls TStr, Cls TInt]\<rparr>
        (PList [PStr ''d'', PStr ''b''])
     = Inr (RNone, \<lparr>data = [PInt 1, PStr ''a''], constraints = [Cls TStr, Cls TInt]\<rparr>)
   \<and> Vec_append \<lparr>data = [PInt 1, PStr ''a''], constraints = [Cls TStr, Cls TInt]\<rparr> (PFloat 2.5)
     = Inl (TypeError ''Invalid type for argument'')"
  by (simp add: constrained_init_def resolve_def allowed_def Vec_extend_def
      Vec_append_def class_truthy_def)

text \<open>
  C7. In-place repetition succeeds whenever the count is a number, whether or not the
  number's class is among the constraints. The guard tests the count as if it were an
  element: \<^verbatim>\<open>Vec(['a', 'b'], constraints=(str,))\<close> followed by \<^verbatim>\<open>*= 2\<close> raises the guard's
  \<^verbatim>\<open>TypeError\<close>, and by \<open>imul_never_repeats_without_index_class\<close> no count can repeat
  such a container.
\<close>

theorem imul_rejects_int_outside_constraints:
  "constrained_init Vec_cls (PList [PStr ''a'', PStr ''b'']) (Some [Cls TStr])
     = Inr \<lparr>data = [PStr ''a'', PStr ''b''], constraints = [Cls TStr]\<rparr>
   \<and> Vec_imul \<lparr>data = [PStr ''a'', PStr ''b''], constraints = [Cls TStr]\<rparr> (PInt 2)
     = Inl (TypeError ''Invalid type for argument'')"
  by (simp add: constrained_init_def resolve_def allowed_def Vec_imul_def)

text \<open>
  C8, as stated, fails: \<^verbatim>\<open>Vec([])\<close> is constructed, and its constraints are the empty tuple.
\<close>

theorem empty_batch_gives_empty_constraints:
  "constrained_init Vec_cls (PList []) None = Inr \<lparr>data = [], constraints = []\<rparr>"
  by (simp add: constrained_init_def resolve_def Vec_cls_def inferred_def)

text \<open>
  C8, amended. A container that construction produces has empty constraints exactly when
  its initial batch is empty and either the explicit \<^verbatim>\<open>constraints\<close> is the empty tuple, or
  there is none and the class-level attribute is unset, empty or a placeholder; in every
  other case the constraints are non-empty. Inference from a list or tuple fills an
  unset, empty or placeholder attribute in, and what it fills in is empty only for an
  empty batch.
\<close>

theorem empty_constraints_only_from_empty_batch:
  "(constrained_init cls arg explicit = Inr c \<longrightarrow>
      (constraints c = [] \<longleftrightarrow>
         elems arg = [] \<and> (explicit = Some [] \<or> (explicit = None \<and> unresolved cls))))
   \<and> (unresolved cls \<and> (arg = PList xs \<or> arg = PTuple xs) \<longrightarrow>
        constrained_init cls arg None = Inr \<lparr>data = xs, constraints = inferred xs\<rparr>
        \<and> (inferred xs = [] \<longleftrightarrow> xs = []))"
proof (intro conjI impI)
  assume h: "constrained_init cls arg explicit = Inr c"
  note s = init_success [OF h]
  from s have cov: "\<forall>v\<in>set (elems arg). Cls (class_of v) \<in> set (constraints c)"
    by (auto simp: list_all_iff)
  have ne: "elems arg \<noteq> [] \<Longrightarrow> constraints c \<noteq> []"
  proof -
    assume "elems arg \<noteq> []"
    then obtain v where "v \<in> set (elems arg)" by (cases "elems arg") auto
    with cov have "Cls (class_of v) \<in> set (constraints c)" by blast
    then show "constraints c \<noteq> []" by auto
  qed
  have res: "elems arg = [] \<Longrightarrow>
      (resolve cls explicit [] = [] \<longleftrightarrow> explicit = Some [] \<or> (explicit = None \<and> unresolved cls))"
  proof (cases explicit)
    case None
    show ?thesis
    proof (cases cls)
      case None
      with \<open>explicit = None\<close> show ?thesis by (simp add: resolve_def inferred_def)
    next
      case (Some cs)
      show ?thesis
      proof (cases cs)
        case Nil
        with Some \<open>explicit = None\<close> show ?thesis by (simp add: resolve_def inferred_def)
      next
        case (Cons e es)
        with Some \<open>explicit = None\<close> show ?thesis
          by (cases e) (simp_all add: resolve_def inferred_def)
      qed
    qed
  next
    case (Some cs)
    then show ?thesis by (simp add: resolve_def)
  qed
  show "constraints c = [] \<longleftrightarrow>
         elems arg = [] \<and> (explicit = Some [] \<or> (explicit = None \<and> unresolved cls))"
  proof (cases "elems arg = []")
    case True
    with s res show ?thesis by simp
  next
    case False
    with ne show ?thesis by simp
  qed
next
  assume h: "unresolved cls \<and> (arg = PList xs \<or> arg = PTuple xs)"
  then have r: "resolve cls None xs = inferred xs" by (simp add: resolve_def)
  from h show "constrained_init cls arg None = Inr \<lparr>data = xs, constraints = inferred xs\<rparr>"
    using init_list_tuple [of arg xs cls None] inferred_covers [of xs] by (simp add: r)
next
  show "inferred xs = [] \<longleftrightarrow> xs = []" by (cases xs) (auto simp: inferred_def)
qed

theorem empty_constraints_only_from_empty_batch_witness:
  "constrained_init Array_cls (PList []) None = Inr \<lparr>data = [], constraints = [Cls TInt]\<rparr>
   \<and> \<not> unresolved Array_cls
   \<and> unresolved Vec_cls
   \<and> constrained_init Vec_cls (PList [PStr ''d'', PStr ''e'']) None
     = Inr \<lparr>data = [PStr ''d'', PStr ''e''], constraints = [Cls TStr]\<rparr>
   \<and> inferred [PStr ''d'', PStr ''e''] \<noteq> []"
  using empty_constraints_only_from_empty_batch [of Array_cls "PList []" None
      "\<lparr>data = [], constraints = [Cls TInt]\<rparr>" "[]"]
    empty_constraints_only_from_empty_batch [of Vec_cls "PList [PStr ''d'', PStr ''e'']" None
      "\<lparr>data = [PStr ''d'', PStr ''e''], constraints = [Cls TStr]\<rparr>" "[PStr ''d'', PStr ''e'']"]
  by (simp add: Vec_cls_def Array_cls_def inferred_def constrained_init_def resolve_def)

text \<open>
  C9, as stated, fails twice. The guard does not validate the first positional argument
  only: after an iterable index whose class is outside the constraints it goes on to the
  element, so \<^verbatim>\<open>Array([1]).insert('x', None)\<close> raises where \<^verbatim>\<open>Array([1]).insert('x', 'y')\<close>
  returns. And an integer index does not always store the element:
  \<^verbatim>\<open>Array([1]).insert(2**63, 'a')\<close> is handed on and raises \<^verbatim>\<open>OverflowError\<close>.
\<close>

theorem insert_guard_reads_second_argument:
  "Vec_insert \<lparr>data = [PInt 1], constraints = [Cls TInt]\<rparr> (PStr ''x'') PNone
       = Inl (TypeError ''Invalid type for argument'')
   \<and> Vec_insert \<lparr>data = [PInt 1], constraints = [Cls TInt]\<rparr> (PStr ''x'') (PStr ''y'')
       = Inr (RNone, \<lparr>data = [PInt 1], constraints = [Cls TInt]\<rparr>)
   \<and> Vec_insert \<lparr>data = [PInt 1], constraints = [Cls TInt]\<rparr> (PInt (2 ^ 63)) (PStr ''a'')
       = Inl (OverflowError ''Python int too large to convert to C ssize_t'')"
  by (simp add: Vec_insert_def allowed_def class_truthy_def UserList_insert_def ssize_ok_def)

text \<open>
  C9, amended. The guard walks the positional arguments in order. At the first one whose
  class is allowed it calls the wrapped method and looks no further; one that is not
  iterable and not allowed raises; one that is iterable and not allowed is passed over.
  So on a container whose constraints contain \<^verbatim>\<open>int\<close>, \<^verbatim>\<open>insert(i, item)\<close> with an integer
  \<open>i\<close> is handed on with no check of \<open>item\<close>: it stores \<open>item\<close>, whatever its class, when
  \<open>i\<close> fits \<^verbatim>\<open>ssize_t\<close>, and raises \<^verbatim>\<open>OverflowError\<close> when it does not.
\<close>

theorem guard_stops_at_first_allowed_argument:
  "constrain m self [a, b] =
     (if allowed self a then m self
      else if \<not> is_iterable a then Inl (TypeError ''Invalid type for argument'')
      else if allowed self b then m self
      else if \<not> is_iterable b then Inl (TypeError ''Invalid type for argument'')
      else Inr (RNone, self))
   \<and> (Cls TInt \<in> set (constraints self) \<and> - (2 ^ 63) \<le> i \<and> i < 2 ^ 63 \<longrightarrow>
        Vec_insert self (PInt i) item
          = Inr (RNone, self\<lparr>data := list_insert i item (data self)\<rparr>))
   \<and> (Cls TInt \<in> set (constraints self) \<and> \<not> (- (2 ^ 63) \<le> i \<and> i < 2 ^ 63) \<longrightarrow>
        Vec_insert self (PInt i) item
          = Inl (OverflowError ''Python int too large to convert to C ssize_t''))"
  by (simp add: Vec_insert_def allowed_def UserList_insert_def ssize_ok_def elems_truthy)

theorem guard_stops_at_first_allowed_argument_witness:
  "Cls TInt \<in> set (constraints \<lparr>data = [PInt 1, PInt 2], constraints = [Cls TInt]\<rparr>)
   \<and> \<not> allowed \<lparr>data = [PInt 1, PInt 2], constraints = [Cls TInt]\<rparr> (PFloat 2.5)
   \<and> Vec_insert \<lparr>data = [PInt 1, PInt 2], constraints = [Cls TInt]\<rparr> (PInt 1) (PFloat 2.5)
       = Inr (RNone, \<lparr>data = [PInt 1, PFloat 2.5, PInt 2], constraints = [Cls TInt]\<rparr>)"
  using guard_stops_at_first_allowed_argument
      [of "UserList_insert (PInt 1) (PFloat 2.5)"
          "\<lparr>data = [PInt 1, PInt 2], constraints = [Cls TInt]\<rparr>"
          "PInt 1" "PFloat 2.5" 1 "PFloat 2.5"]
  by (simp add: allowed_def list_insert_def)

text \<open>
  C10, as stated, fails for \<^verbatim>\<open>insert\<close>, whose first positional argument is the index:
  \<^verbatim>\<open>Array([1]).insert('x', 2.5)\<close> passes over the string and raises at the float.
\<close>

theorem insert_iterable_index_raises:
  "is_iterable (PStr ''x'')
   \<and> \<not> allowed \<lparr>data = [PInt 1], constraints = [Cls TInt]\<rparr> (PStr ''x'')
   \<and> Vec_insert \<lparr>data = [PInt 1], constraints = [Cls TInt]\<rparr> (PStr ''x'') (PFloat 2.5)
       = Inl (TypeError ''Invalid type for argument'')"
  by (simp add: Vec_insert_def allowed_def class_truthy_def)

text \<open>
  C10, amended. When the one positional argument of \<^verbatim>\<open>append\<close>, \<^verbatim>\<open>extend\<close>, \<^verbatim>\<open>+=\<close> or \<^verbatim>\<open>*=\<close>
  is an iterable whose own class is outside the constraints, the call returns \<^verbatim>\<open>None\<close>
  without raising and without touching the container, whatever the iterable holds.
  \<^verbatim>\<open>insert\<close> with such an iterable as its index never changes the container either, but
  it returns silently only when the element too is an iterable whose class is outside the
  constraints; otherwise it raises.
\<close>

theorem iterable_outside_constraints_is_noop:
  assumes "is_iterable a" and "\<not> allowed self a"
  shows "Vec_append self a = Inr (RNone, self) \<and> Vec_extend self a = Inr (RNone, self)
       \<and> Vec_iadd self a = Inr (RNone, self) \<and> Vec_imul self a = Inr (RNone, self)
       \<and> (Vec_insert self a item = Inr (RNone, self)
             \<longleftrightarrow> is_iterable item \<and> \<not> allowed self item)
       \<and> (Vec_insert self a item = Inr (RNone, self) \<or> (\<exists>e. Vec_insert self a item = Inl e))"
proof -
  have ix: "index_of a = None" using assms(1) by (rule iterable_no_index)
  have ins: "Vec_insert self a item =
      (if allowed self item then UserList_insert a item self
       else if is_iterable item then Inr (RNone, self)
       else Inl (TypeError ''Invalid type for argument''))"
    using assms by (simp add: Vec_insert_def elems_truthy)
  show ?thesis using assms ix
    by (auto simp: ins Vec_append_def Vec_extend_def Vec_iadd_def Vec_imul_def elems_truthy
        UserList_insert_def)
qed

theorem iterable_outside_constraints_is_noop_witness:
  "is_iterable (PList [PInt 4, PInt 5])
   \<and> \<not> allowed \<lparr>data = [PInt 1], constraints = [Cls TInt]\<rparr> (PList [PInt 4, PInt 5])
   \<and> Vec_extend \<lparr>data = [PInt 1], constraints = [Cls TInt]\<rparr> (PList [PInt 4, PInt 5])
       = Inr (RNone, \<lparr>data = [PInt 1], constraints = [Cls TInt]\<rparr>)
   \<and> Vec_iadd \<lparr>data = [PInt 1], constraints = [Cls TInt]\<rparr> (PList [PInt 4, PInt 5])
       = Inr (RNone, \<lparr>data = [PInt 1], constraints = [Cls TInt]\<rparr>)
   \<and> Vec_append \<lparr>data = [PInt 1], constraints = [Cls TInt]\<rparr> (PList [PInt 4, PInt 5])
       = Inr (RNone, \<lparr>data = [PInt 1], constraints = [Cls TInt]\<rparr>)"
proof -
  have i: "is_iterable (PList [PInt 4, PInt 5])" by simp
  have n: "\<not> allowed \<lparr>data = [PInt 1], constraints = [Cls TInt]\<rparr> (PList [PInt 4, PInt 5])"
    by (simp add: allowed_def)
  from iterable_outside_constraints_is_noop [OF i n] i n show ?thesis by simp
qed

end
